theory Spec2Isabelle
  imports
    Complex_Main
    "HOL-Library.Word"
    "HOL-Library.List_Lexorder"
    "HOL-Library.Sublist"
begin

section \<open>JavaScript values\<close>

text \<open>
  A JavaScript string is a sequence of UTF-16 code units. Lists of 16-bit words carry the
  lexicographic order of \<open>HOL-Library.List_Lexorder\<close>, which is the order the default
  comparison of \<open>Array.prototype.sort\<close> uses on strings (code unit by code unit, a proper
  prefix first).
\<close>

type_synonym jsstring = "16 word list"

text \<open>An ASCII literal of the source, as a JavaScript string.\<close>

definition js :: "string \<Rightarrow> jsstring" where
  "js s = map of_char s"

text \<open>
  Truthiness of a value that is a string, \<open>null\<close> or \<open>undefined\<close>
  (\<open>None\<close> stands for both \<open>null\<close> and \<open>undefined\<close>): only a non-empty
  string is truthy.
\<close>

fun truthy :: "jsstring option \<Rightarrow> bool" where
  "truthy None = False"
| "truthy (Some s) = (s \<noteq> [])"

text \<open>
  A value produced by \<open>JSON.parse\<close>. An object is the list of its members in source
  order (of two members with one key, the later one wins). Numbers are restricted to the
  integers: the code only tests them for truthiness.
\<close>

datatype json =
  JNull
| JBool bool
| JNum int
| JStr jsstring
| JArr "json list"
| JObj "(jsstring \<times> json) list"

text \<open>Truthiness of a JSON value.\<close>

fun truthy_json :: "json \<Rightarrow> bool" where
  "truthy_json JNull = False"
| "truthy_json (JBool b) = b"
| "truthy_json (JNum n) = (n \<noteq> 0)"
| "truthy_json (JStr s) = (s \<noteq> [])"
| "truthy_json (JArr _) = True"
| "truthy_json (JObj _) = True"

text \<open>
  What a \<open>throw\<close> can carry: an \<open>ApiError\<close> (\<open>lib/types/errors\<close>) with its error
  payload and HTTP status, any other instance of \<open>Error\<close> with its message, or a value
  that is not an \<open>Error\<close>.
\<close>

datatype exn =
  ApiError json nat
| JsError jsstring
| NonError

section \<open>The graph canvas: \<open>src/components/graph/graph.tsx\<close>\<close>

subsection \<open>Nodes, edges and connections\<close>

text \<open>
  Modelled from the spec: the enumerations \<open>NodeType\<close> and \<open>EdgeType\<close> are declared
  in \<open>configuration/node-types\<close> and \<open>configuration/edge-types\<close>, which are not part of
  the sources at hand. The members are the ones \<open>graph.tsx\<close> names, with the external
  agent node of the spec's data model.
\<close>

datatype NodeType = Agent | ExternalAgent | MCP

datatype EdgeType = A2A | A2AExternal | SelfLoop

text \<open>
  The payload of a node. A field is \<open>None\<close> when the property is absent, \<open>undefined\<close>
  or \<open>null\<close>.
\<close>

record node_data =
  name :: "jsstring option"
  isDefault :: "bool option"
  toolId :: "jsstring option"
  agentId :: "jsstring option"
  relationshipId :: "jsstring option"
  imageUrl :: "jsstring option"
  provider :: "jsstring option"

record node =
  node_id :: jsstring
  node_type :: "NodeType option"
  node_position :: "real \<times> real"
  node_data :: node_data
  node_selected :: "bool option"
  node_deletable :: "bool option"

record relationships =
  transferTargetToSource :: bool
  transferSourceToTarget :: bool
  delegateTargetToSource :: bool
  delegateSourceToTarget :: bool

record edge_data =
  relationships :: relationships

text \<open>A \<open>Connection\<close> of the canvas library: two node ids and two optional handle ids.\<close>

record connection =
  source :: jsstring
  target :: jsstring
  sourceHandle :: "jsstring option"
  targetHandle :: "jsstring option"

text \<open>
  An \<open>Edge\<close>: the connection's fields with an id. \<open>edge_type\<close> is \<open>None\<close> when the
  edge object has no \<open>type\<close> property; the canvas then falls back to its
  \<open>defaultEdgeOptions\<close>, whose type is \<open>'default'\<close>.
\<close>

record edge = connection +
  edge_id :: jsstring
  edge_type :: "EdgeType option"
  edge_selected :: "bool option"
  edge_data :: "edge_data option"

text \<open>
  The handle ids are constants of \<open>configuration/node-types\<close>, which is not part of the
  sources at hand: they are parameters of the model.
\<close>

record handle_ids =
  agentNodeSourceHandleId :: jsstring
  agentNodeTargetHandleId :: jsstring
  externalAgentNodeTargetHandleId :: jsstring
  mcpNodeHandleId :: jsstring

text \<open>
  The spec's "agent-control handle": either of the two handles of an agent node. The
  source writes the two comparisons out wherever it needs them.
\<close>

definition isAgentControlHandle :: "handle_ids \<Rightarrow> jsstring option \<Rightarrow> bool" where
  "isAgentControlHandle H h =
     (h = Some (agentNodeSourceHandleId H) \<or> h = Some (agentNodeTargetHandleId H))"

subsection \<open>\<open>getEdgeId\<close>\<close>

text \<open>
  \<open>const [low, high] = [a, b].sort(); return `edge-${low}-${high}`\<close>.
  \<open>sort\<close> is the stable insertion sort of the list library on the string order above.
\<close>

definition getEdgeId :: "jsstring \<Rightarrow> jsstring \<Rightarrow> jsstring" where
  "getEdgeId a b =
     (let sorted = sort [a, b]; low = sorted ! 0; high = sorted ! 1
      in js ''edge-'' @ low @ js ''-'' @ high)"

subsection \<open>\<open>onConnectWrapped\<close> and \<open>isValidConnection\<close>\<close>

text \<open>
  The calls a callback of the component makes on its collaborators (the graph store, the
  error store, the command manager, the notification library, the console and the
  router), in the order it makes them. \<open>'s\<close> is the type of a parsed error summary.
  The flag of \<open>ToastError\<close> is the \<open>closeButton\<close> option; \<open>ToastWarning\<close> and
  \<open>ToastSuccess\<close> always carry it.
\<close>

datatype 's effect =
  MarkUnsaved
| UpdateNodeData jsstring node_data
| ExecuteAddPreparedEdge edge bool
| ToastWarning jsstring
| ClearErrors
| ToastSuccess jsstring
| MarkSaved
| SetNodes "node list"
| SetMetadata jsstring jsstring
| RouterPush jsstring
| SetErrors 's
| ToastError jsstring bool
| ConsoleError jsstring exn

text \<open>
  The edge \<open>newEdge\<close> that \<open>onConnectWrapped\<close> builds from the connection
  (lines 287 to 340): the id, the connection's own fields, and the type and relationship
  payload chosen by the chain of conditions.
\<close>

definition transferDefaults :: relationships where
  "transferDefaults =
     \<lparr>transferTargetToSource = False, transferSourceToTarget = True,
      delegateTargetToSource = False, delegateSourceToTarget = False\<rparr>"

definition delegateDefaults :: relationships where
  "delegateDefaults =
     \<lparr>transferTargetToSource = False, transferSourceToTarget = False,
      delegateTargetToSource = False, delegateSourceToTarget = True\<rparr>"

definition newEdge :: "handle_ids \<Rightarrow> connection \<Rightarrow> edge" where
  "newEdge H params =
     (let isSelfLoop = (source params = target params);
          id = (if isSelfLoop then js ''edge-self-'' @ source params
                else getEdgeId (source params) (target params));
          e = \<lparr>source = source params, target = target params,
               sourceHandle = sourceHandle params, targetHandle = targetHandle params,
               edge_id = id, edge_type = None, edge_selected = None, edge_data = None\<rparr>
      in
        if isSelfLoop then
          e\<lparr>edge_type := Some SelfLoop, edge_selected := Some True,
            edge_data := Some \<lparr>relationships = transferDefaults\<rparr>\<rparr>
        else if (sourceHandle params = Some (agentNodeSourceHandleId H) \<or>
                 sourceHandle params = Some (agentNodeTargetHandleId H)) \<and>
                (targetHandle params = Some (agentNodeTargetHandleId H) \<or>
                 targetHandle params = Some (agentNodeSourceHandleId H)) then
          e\<lparr>edge_type := Some A2A, edge_selected := Some True,
            edge_data := Some \<lparr>relationships = transferDefaults\<rparr>\<rparr>
        else if (sourceHandle params = Some (agentNodeSourceHandleId H) \<or>
                 sourceHandle params = Some (agentNodeTargetHandleId H)) \<and>
                targetHandle params = Some (externalAgentNodeTargetHandleId H) then
          e\<lparr>edge_type := Some A2AExternal,
            edge_data := Some \<lparr>relationships = delegateDefaults\<rparr>\<rparr>
        else e)"

text \<open>
  \<open>onConnectWrapped\<close>: mark the graph unsaved, build the edge, hand the source agent's
  id to the MCP node the edge lands on, and execute the command that adds the edge (with
  \<open>deselectOtherEdgesIfA2A: true\<close>; the source defers this call to the next animation
  frame, so it is the last one). \<open>nodes\<close> is the node list the callback closes over.
\<close>

definition onConnectWrapped ::
  "handle_ids \<Rightarrow> node list \<Rightarrow> connection \<Rightarrow> 's effect list" where
  "onConnectWrapped H nodes params =
     [MarkUnsaved] @
     (if targetHandle params = Some (mcpNodeHandleId H) \<and>
         (sourceHandle params = Some (agentNodeSourceHandleId H) \<or>
          sourceHandle params = Some (agentNodeTargetHandleId H))
      then (case find (\<lambda>n. node_id n = target params) nodes of
              Some targetNode \<Rightarrow>
                if node_type targetNode = Some MCP
                then [UpdateNodeData (node_id targetNode)
                        ((node_data targetNode)\<lparr>agentId := Some (source params),
                                                   relationshipId := None\<rparr>)]
                else []
            | None \<Rightarrow> [])
      else []) @
     [ExecuteAddPreparedEdge (newEdge H params) True]"

text \<open>
  \<open>isValidConnection\<close>: a connection between two MCP handles is refused, every other
  one is allowed.
\<close>

definition isValidConnection ::
  "handle_ids \<Rightarrow> jsstring option \<Rightarrow> jsstring option \<Rightarrow> bool" where
  "isValidConnection H sHandle tHandle =
     (if sHandle = Some (mcpNodeHandleId H) \<and> tHandle = Some (mcpNodeHandleId H)
      then False
      else True)"

subsection \<open>The initial canvas\<close>

text \<open>
  \<open>initialNodes\<close>: the single default agent node. Its id comes from \<open>nanoid()\<close> and is
  a parameter.
\<close>

definition initialNodes :: "jsstring \<Rightarrow> node list" where
  "initialNodes nanoid =
     [\<lparr>node_id = nanoid, node_type = Some Agent, node_position = (0, 0),
       node_data = \<lparr>name = Some [], isDefault = Some True, toolId = None, agentId = None,
                    relationshipId = None, imageUrl = None, provider = None\<rparr>,
       node_selected = None, node_deletable = Some False\<rparr>]"

text \<open>
  Modelled from the spec: \<open>initialEdges\<close> is a constant of \<open>configuration/edge-types\<close>,
  which is not part of the sources at hand. The spec describes the empty default graph as
  a single default agent node and no edges.
\<close>

definition initialEdges :: "edge list" where
  "initialEdges = []"

text \<open>An MCP tool of \<open>toolLookup\<close>, as far as \<open>enrichNodes\<close> reads it.\<close>

record MCPTool =
  tool_name :: jsstring
  tool_imageUrl :: "jsstring option"

text \<open>
  \<open>enrichNodes\<close>: an MCP node whose data has a \<open>toolId\<close> known to \<open>toolLookup\<close> takes
  the tool's name, image and provider; every other node is returned as it is.
  \<open>toolType\<close> stands for \<open>getToolTypeAndName(tool).type\<close> (\<open>lib/utils/mcp-utils\<close>).
  The test \<open>'toolId' in node.data\<close> is read as: the field is not \<open>None\<close>.
\<close>

definition enrichNode ::
  "(jsstring \<rightharpoonup> 't MCPTool_scheme) \<Rightarrow> ('t MCPTool_scheme \<Rightarrow> jsstring) \<Rightarrow> node \<Rightarrow> node" where
  "enrichNode toolLookup toolType n =
     (if node_type n = Some MCP then
        (case toolId (node_data n) of
           Some tid \<Rightarrow>
             (case toolLookup tid of
                Some tool \<Rightarrow>
                  n\<lparr>node_data := (node_data n)\<lparr>name := Some (tool_name tool),
                                                  imageUrl := tool_imageUrl tool,
                                                  provider := Some (toolType tool)\<rparr>\<rparr>
              | None \<Rightarrow> n)
         | None \<Rightarrow> n)
      else n)"

definition enrichNodes ::
  "(jsstring \<rightharpoonup> 't MCPTool_scheme) \<Rightarrow> ('t MCPTool_scheme \<Rightarrow> jsstring) \<Rightarrow> node list \<Rightarrow> node list" where
  "enrichNodes toolLookup toolType nodes = map (enrichNode toolLookup toolType) nodes"

text \<open>
  The memo of lines 139 to 147: the nodes and edges the canvas starts from.
  \<open>deserializeGraphData\<close> belongs to the graph domain module and is a parameter.
\<close>

definition graphNodesAndEdges ::
  "('g \<Rightarrow> node list \<times> edge list) \<Rightarrow> (jsstring \<rightharpoonup> 't MCPTool_scheme) \<Rightarrow>
   ('t MCPTool_scheme \<Rightarrow> jsstring) \<Rightarrow> jsstring \<Rightarrow> 'g option \<Rightarrow> node list \<times> edge list" where
  "graphNodesAndEdges deserializeGraphData toolLookup toolType nanoid graph =
     (let result = (case graph of
                      Some g \<Rightarrow> deserializeGraphData g
                    | None \<Rightarrow> (initialNodes nanoid, initialEdges))
      in (enrichNodes toolLookup toolType (fst result), snd result))"

subsection \<open>\<open>onSubmit\<close>\<close>

text \<open>
  The part of a saved graph that the reconciliation reads: for each agent id the agent's
  \<open>canUse\<close> list (\<open>None\<close> when the agent has no \<open>canUse\<close> property or a falsy one), and
  the graph id.
\<close>

record canUseItem =
  canUse_toolId :: jsstring
  agentToolRelationId :: "jsstring option"

record agentDefinition =
  canUse :: "canUseItem list option"

record graphDefinition =
  agents :: "jsstring \<rightharpoonup> agentDefinition"
  graph_id :: "jsstring option"

text \<open>
  The message of the \<open>TypeError\<close> that \<open>'canUse' in undefined\<close> raises; its wording is
  the engine's.
\<close>

definition inOperatorMessage :: jsstring where
  "inOperatorMessage = js ''Cannot use 'in' operator to search for 'canUse' in undefined''"

text \<open>
  The body of the function mapped over the nodes (lines 559 to 595), with the set
  \<open>processedRelationships\<close> passed in and returned. An MCP node with an agent id and a
  tool id keeps a relationship id it already has; otherwise it takes the first entry of
  its agent's \<open>canUse\<close> list for its tool whose relationship id is not yet processed,
  and that id becomes processed. Looking into the entry of an agent the response does not
  have raises a \<open>TypeError\<close>.
\<close>

definition reconcileNode ::
  "('g) graphDefinition_scheme \<Rightarrow> jsstring set \<Rightarrow> node \<Rightarrow> exn + (node \<times> jsstring set)" where
  "reconcileNode data processedRelationships n =
     (if node_type n = Some MCP then
        if truthy (agentId (node_data n)) \<and> truthy (toolId (node_data n)) then
          if truthy (relationshipId (node_data n)) then Inr (n, processedRelationships)
          else
            (case agents data (the (agentId (node_data n))) of
               None \<Rightarrow> Inl (JsError inOperatorMessage)
             | Some agent \<Rightarrow>
                 (case canUse agent of
                    None \<Rightarrow> Inr (n, processedRelationships)
                  | Some tools \<Rightarrow>
                      (case find (\<lambda>tool. Some (canUse_toolId tool) = toolId (node_data n) \<and>
                                          truthy (agentToolRelationId tool) \<and>
                                          the (agentToolRelationId tool) \<notin> processedRelationships)
                                 tools of
                         Some matchingRelationship \<Rightarrow>
                           Inr (n\<lparr>node_data := (node_data n)\<lparr>relationshipId :=
                                      agentToolRelationId matchingRelationship\<rparr>\<rparr>,
                                insert (the (agentToolRelationId matchingRelationship))
                                  processedRelationships)
                       | None \<Rightarrow> Inr (n, processedRelationships))))
        else Inr (n, processedRelationships)
      else Inr (n, processedRelationships))"

text \<open>
  \<open>currentNodes.map(...)\<close>, left to right, threading the set; an exception of one node
  ends the whole map.
\<close>

fun reconcileNodes ::
  "('g) graphDefinition_scheme \<Rightarrow> jsstring set \<Rightarrow> node list \<Rightarrow> exn + node list" where
  "reconcileNodes data processedRelationships [] = Inr []"
| "reconcileNodes data processedRelationships (n # ns) =
     (case reconcileNode data processedRelationships n of
        Inl e \<Rightarrow> Inl e
      | Inr (n', processed') \<Rightarrow>
          (case reconcileNodes data processed' ns of
             Inl e \<Rightarrow> Inl e
           | Inr ns' \<Rightarrow> Inr (n' # ns')))"

text \<open>The function handed to \<open>setNodes\<close>: the set starts empty.\<close>

definition updateRelationshipIds ::
  "('g) graphDefinition_scheme \<Rightarrow> node list \<Rightarrow> exn + node list" where
  "updateRelationshipIds data currentNodes = reconcileNodes data {} currentNodes"



definition withRelationshipId :: "node \<Rightarrow> jsstring \<Rightarrow> node" where
  "withRelationshipId n r = n\<lparr>node_data := (node_data n)\<lparr>relationshipId := Some r\<rparr>\<rparr>"

text \<open>What \<open>saveGraph\<close> resolves to; \<open>'e\<close> is the type of the raw validation error.\<close>

datatype ('g, 'e) saveResult =
  SaveSuccess "('g) graphDefinition_scheme option"
| SaveFailure 'e

definition returnsSuccess :: "(exn + ('g, 'e) saveResult) \<Rightarrow> bool" where
  "returnsSuccess saved =
     (case saved of Inr (SaveSuccess _) \<Rightarrow> True | _ \<Rightarrow> False)"

text \<open>
  \<open>onSubmit\<close>. The result is the list of calls made and, when an exception leaves the
  callback, that exception.
  \<^item> \<open>warningMessage\<close> is what \<open>detectOrphanedToolsAndGetWarning\<close> returned;
  \<^item> \<open>saved\<close> is the outcome of serialising the graph and awaiting \<open>saveGraph\<close>
    (\<open>Inl\<close> when that threw);
  \<^item> \<open>parseGraphValidationErrors\<close> and \<open>getErrorSummaryMessage\<close> are the functions of
    \<open>lib/utils/graph-error-parser\<close>, which may throw;
  \<^item> \<open>graphId\<close> is \<open>graph?.id\<close>, and \<open>currentNodes\<close> the store's nodes when
    \<open>setNodes\<close> runs its function.
\<close>

definition onSubmit ::
  "jsstring option \<Rightarrow> (exn + ('g, 'e) saveResult) \<Rightarrow> ('e \<Rightarrow> exn + 's) \<Rightarrow>
   ('s \<Rightarrow> exn + jsstring option) \<Rightarrow> jsstring \<Rightarrow> jsstring \<Rightarrow> jsstring option \<Rightarrow>
   node list \<Rightarrow> 's effect list \<times> exn option" where
  "onSubmit warningMessage saved parseGraphValidationErrors getErrorSummaryMessage
            tenantId projectId graphId currentNodes =
     (let warned = (if truthy warningMessage then [ToastWarning (the warningMessage)] else [])
      in
        case saved of
          Inl e \<Rightarrow> (warned, Some e)
        | Inr (SaveSuccess resData) \<Rightarrow>
            (let marked = warned @ [ClearErrors, ToastSuccess (js ''Graph saved''), MarkSaved]
             in
               case resData of
                 None \<Rightarrow> (marked, None)
               | Some data \<Rightarrow>
                   (case updateRelationshipIds data currentNodes of
                      Inl e \<Rightarrow> (marked, Some e)
                    | Inr nodes' \<Rightarrow>
                        (marked @ [SetNodes nodes'] @
                         (if \<not> truthy graphId \<and> truthy (graph_id data)
                          then [SetMetadata (js ''id'') (the (graph_id data)),
                                RouterPush (js ''/'' @ tenantId @ js ''/projects/'' @ projectId @
                                            js ''/graphs/'' @ the (graph_id data))]
                          else []),
                         None)))
        | Inr (SaveFailure error) \<Rightarrow>
            (case parseGraphValidationErrors error of
               Inl parseError \<Rightarrow>
                 (warned @ [ConsoleError (js ''Failed to parse validation errors:'') parseError,
                            ToastError (js ''Failed to save graph'') True],
                  None)
             | Inr errorSummary \<Rightarrow>
                 (case getErrorSummaryMessage errorSummary of
                    Inl parseError \<Rightarrow>
                      (warned @ [SetErrors errorSummary,
                                 ConsoleError (js ''Failed to parse validation errors:'') parseError,
                                 ToastError (js ''Failed to save graph'') True],
                       None)
                  | Inr summaryMessage \<Rightarrow>
                      (warned @ [SetErrors errorSummary,
                                 ToastError (if truthy summaryMessage then the summaryMessage
                                             else js ''Failed to save graph - validation errors found'')
                                            False],
                       None))))"

text \<open>
  Modelled from the spec: the graph store and the error store (\<open>use-graph-store\<close>,
  \<open>use-graph-errors\<close>) are not part of the sources at hand. Of their state the model
  keeps the dirty flag and the stored error summary, with the transitions the spec gives:
  \<open>markSaved\<close> clears the dirty flag, \<open>markUnsaved\<close> sets it, \<open>clearErrors\<close> drops the
  stored summary, \<open>setErrors\<close> replaces it, and executing a command marks the graph
  unsaved. Notifications, logging and routing touch neither; for \<open>setNodes\<close>,
  \<open>setMetadata\<close> and \<open>updateNodeData\<close> the spec names no effect on the two, and the
  model gives them none.
\<close>

record 's stores =
  dirty :: bool
  errors :: "'s option"

fun applyEffect :: "'s effect \<Rightarrow> 's stores \<Rightarrow> 's stores" where
  "applyEffect MarkSaved st = st\<lparr>dirty := False\<rparr>"
| "applyEffect MarkUnsaved st = st\<lparr>dirty := True\<rparr>"
| "applyEffect ClearErrors st = st\<lparr>errors := None\<rparr>"
| "applyEffect (SetErrors s) st = st\<lparr>errors := Some s\<rparr>"
| "applyEffect (ExecuteAddPreparedEdge _ _) st = st\<lparr>dirty := True\<rparr>"
| "applyEffect _ st = st"

definition applyEffects :: "'s effect list \<Rightarrow> 's stores \<Rightarrow> 's stores" where
  "applyEffects effs st = fold applyEffect effs st"

section \<open>The API configuration: \<open>lib/api/api-config.ts\<close>\<close>

subsection \<open>Lazy base URLs\<close>

text \<open>
  \<open>process.env\<close> maps a variable's name to its value. The default URLs are constants of
  \<open>runtime-config/defaults\<close>, which is not part of the sources at hand: they are
  parameters of the model.
\<close>

type_synonym process_env = "jsstring \<rightharpoonup> jsstring"

record defaults =
  DEFAULT_INKEEP_AGENTS_MANAGE_API_URL :: jsstring
  DEFAULT_INKEEP_AGENTS_RUN_API_URL :: jsstring

text \<open>The module's four variables.\<close>

record api_state =
  INKEEP_AGENTS_MANAGE_API_URL :: "jsstring option"
  INKEEP_AGENTS_RUN_API_URL :: "jsstring option"
  hasWarnedManageApi :: bool
  hasWarnedRunApi :: bool

definition initial_api_state :: api_state where
  "initial_api_state =
     \<lparr>INKEEP_AGENTS_MANAGE_API_URL = None, INKEEP_AGENTS_RUN_API_URL = None,
      hasWarnedManageApi = False, hasWarnedRunApi = False\<rparr>"

text \<open>
  \<open>getManageApiUrl\<close> and \<open>getRunApiUrl\<close> return the URL, the messages written with
  \<open>console.warn\<close> during the call, and the module's variables after it.
\<close>

definition getManageApiUrl ::
  "process_env \<Rightarrow> defaults \<Rightarrow> api_state \<Rightarrow> jsstring \<times> jsstring list \<times> api_state" where
  "getManageApiUrl env D s =
     (case INKEEP_AGENTS_MANAGE_API_URL s of
        None \<Rightarrow>
          (let url = (if truthy (env (js ''INKEEP_AGENTS_MANAGE_API_URL''))
                      then the (env (js ''INKEEP_AGENTS_MANAGE_API_URL''))
                      else DEFAULT_INKEEP_AGENTS_MANAGE_API_URL D);
               s1 = s\<lparr>INKEEP_AGENTS_MANAGE_API_URL := Some url\<rparr>
           in
             if \<not> truthy (env (js ''INKEEP_AGENTS_MANAGE_API_URL'')) \<and> \<not> hasWarnedManageApi s1
             then (url,
                   [js ''INKEEP_AGENTS_MANAGE_API_URL is not set, falling back to: '' @
                    DEFAULT_INKEEP_AGENTS_MANAGE_API_URL D],
                   s1\<lparr>hasWarnedManageApi := True\<rparr>)
             else (url, [], s1))
      | Some url \<Rightarrow> (url, [], s))"

definition getRunApiUrl ::
  "process_env \<Rightarrow> defaults \<Rightarrow> api_state \<Rightarrow> jsstring \<times> jsstring list \<times> api_state" where
  "getRunApiUrl env D s =
     (case INKEEP_AGENTS_RUN_API_URL s of
        None \<Rightarrow>
          (let url = (if truthy (env (js ''INKEEP_AGENTS_RUN_API_URL''))
                      then the (env (js ''INKEEP_AGENTS_RUN_API_URL''))
                      else DEFAULT_INKEEP_AGENTS_RUN_API_URL D);
               s1 = s\<lparr>INKEEP_AGENTS_RUN_API_URL := Some url\<rparr>
           in
             if \<not> truthy (env (js ''INKEEP_AGENTS_RUN_API_URL'')) \<and> \<not> hasWarnedRunApi s1
             then (url,
                   [js ''INKEEP_AGENTS_RUN_API_URL is not set, falling back to: '' @
                    DEFAULT_INKEEP_AGENTS_RUN_API_URL D],
                   s1\<lparr>hasWarnedRunApi := True\<rparr>)
             else (url, [], s1))
      | Some url \<Rightarrow> (url, [], s))"

text \<open>
  A sequence of calls of the two getters, in any order: what each call returned and
  warned, and the module's variables at the end.
\<close>

datatype getter = ManageApiUrl | RunApiUrl

fun callGetters ::
  "process_env \<Rightarrow> defaults \<Rightarrow> getter list \<Rightarrow> api_state \<Rightarrow>
   (getter \<times> jsstring \<times> jsstring list) list \<times> api_state" where
  "callGetters env D [] s = ([], s)"
| "callGetters env D (g # gs) s =
     (case (case g of ManageApiUrl \<Rightarrow> getManageApiUrl env D s
                    | RunApiUrl \<Rightarrow> getRunApiUrl env D s) of
        (url, warnings, s') \<Rightarrow>
          (case callGetters env D gs s' of
             (rest, s'') \<Rightarrow> ((g, url, warnings) # rest, s'')))"

text \<open>The outcomes of the calls of one getter within a sequence, in order.\<close>

definition outcomesOf ::
  "getter \<Rightarrow> (getter \<times> jsstring \<times> jsstring list) list \<Rightarrow> (jsstring \<times> jsstring list) list" where
  "outcomesOf g results = map snd (filter (\<lambda>r. fst r = g) results)"

definition manageWarning :: "defaults \<Rightarrow> jsstring" where
  "manageWarning D =
     js ''INKEEP_AGENTS_MANAGE_API_URL is not set, falling back to: '' @
     DEFAULT_INKEEP_AGENTS_MANAGE_API_URL D"

definition runWarning :: "defaults \<Rightarrow> jsstring" where
  "runWarning D =
     js ''INKEEP_AGENTS_RUN_API_URL is not set, falling back to: '' @
     DEFAULT_INKEEP_AGENTS_RUN_API_URL D"

text \<open>
  What a run of calls of one getter looks like when the variable is not set: the first
  call warns, no later one does, and all return the default.
\<close>

fun warnsOnce :: "jsstring \<Rightarrow> jsstring \<Rightarrow> nat \<Rightarrow> (jsstring \<times> jsstring list) list" where
  "warnsOnce url warning 0 = []"
| "warnsOnce url warning (Suc k) = (url, [warning]) # replicate k (url, [])"

subsection \<open>Requests\<close>

text \<open>
  The options of a request: the caller's headers (none when \<open>options.headers\<close> is
  absent); every other option is in the record's extension and is passed on unchanged.
\<close>

record requestInit =
  headers :: "jsstring \<rightharpoonup> jsstring"

text \<open>
  A response, as far as the helper observes it: \<open>ok\<close>, \<open>status\<close>, the
  \<open>content-type\<close> header, and what \<open>json()\<close> and \<open>text()\<close> settle to.
\<close>

record response =
  ok :: bool
  status :: nat
  contentType :: "jsstring option"
  json_result :: "exn + json"
  text_result :: "exn + jsstring"

definition unknownError :: json where
  "unknownError =
     JObj [(js ''code'', JStr (js ''unknown'')),
           (js ''message'', JStr (js ''Unknown error occurred''))]"

text \<open>
  \<open>errorData.error\<close>: reading a property of \<open>null\<close> raises a \<open>TypeError\<close> (its
  wording is the engine's); an object gives the member of that name, if it has one; a
  boolean, a number, a string or an array has no property \<open>error\<close>.
\<close>

definition nullPropertyMessage :: jsstring where
  "nullPropertyMessage = js ''Cannot read properties of null (reading 'error')''"

fun errorMember :: "json \<Rightarrow> exn + json option" where
  "errorMember JNull = Inl (JsError nullPropertyMessage)"
| "errorMember (JObj members) = Inr (map_of (rev members) (js ''error''))"
| "errorMember _ = Inr None"

text \<open>
  The error a response body carries: the truthy member \<open>error\<close> of a body that is a
  JSON object, if there is one.
\<close>

fun bodyError :: "json \<Rightarrow> json option" where
  "bodyError (JObj members) =
     (case map_of (rev members) (js ''error'') of
        Some v \<Rightarrow> if truthy_json v then Some v else None
      | None \<Rightarrow> None)"
| "bodyError _ = None"

definition internalServerError :: "jsstring \<Rightarrow> json" where
  "internalServerError message =
     JObj [(js ''code'', JStr (js ''internal_server_error'')), (js ''message'', JStr message)]"

text \<open>
  The \<open>catch\<close> clause of \<open>makeApiRequestInternal\<close>: an \<open>ApiError\<close> is thrown on, any
  other failure is wrapped.
\<close>

fun rethrow :: "exn \<Rightarrow> exn" where
  "rethrow (ApiError payload st) = ApiError payload st"
| "rethrow (JsError message) = ApiError (internalServerError message) 500"
| "rethrow NonError = ApiError (internalServerError (js ''Network error occurred'')) 500"

text \<open>
  The headers of the outgoing request: the content type, then the caller's headers, then
  the bearer token when the bypass secret of the environment is truthy.
\<close>

definition defaultHeaders :: "process_env \<Rightarrow> 'o requestInit_scheme \<Rightarrow> (jsstring \<rightharpoonup> jsstring)" where
  "defaultHeaders env options =
     ([js ''Content-Type'' \<mapsto> js ''application/json''] ++ headers options) ++
     (if truthy (env (js ''INKEEP_AGENTS_MANAGE_API_BYPASS_SECRET''))
      then [js ''Authorization'' \<mapsto>
              js ''Bearer '' @ the (env (js ''INKEEP_AGENTS_MANAGE_API_BYPASS_SECRET''))]
      else Map.empty)"

text \<open>
  The body of the \<open>try\<close> block. \<open>fetch\<close> and \<open>JSON.parse\<close> are parameters; the result is
  \<open>Inr None\<close> for \<open>undefined\<close>.
\<close>

definition tryRequest ::
  "(jsstring \<Rightarrow> 'o requestInit_scheme \<Rightarrow> exn + response) \<Rightarrow> (jsstring \<Rightarrow> exn + json) \<Rightarrow>
   jsstring \<Rightarrow> 'o requestInit_scheme \<Rightarrow> exn + json option" where
  "tryRequest fetch JSON_parse url init =
     (case fetch url init of
        Inl e \<Rightarrow> Inl e
      | Inr resp \<Rightarrow>
          if \<not> ok resp then
            (let errorData = (case json_result resp of
                                Inl _ \<Rightarrow> JObj [(js ''error'', unknownError)]
                              | Inr v \<Rightarrow> v)
             in case errorMember errorData of
                  Inl e \<Rightarrow> Inl e
                | Inr member \<Rightarrow>
                    Inl (ApiError (case member of
                                     Some v \<Rightarrow> if truthy_json v then v else unknownError
                                   | None \<Rightarrow> unknownError)
                                  (status resp)))
          else if (case contentType resp of
                     Some ct \<Rightarrow> sublist (js ''application/json'') ct
                   | None \<Rightarrow> False) then
            (case text_result resp of
               Inl e \<Rightarrow> Inl e
             | Inr txt \<Rightarrow>
                 if txt \<noteq> [] then
                   (case JSON_parse txt of Inl e \<Rightarrow> Inl e | Inr v \<Rightarrow> Inr (Some v))
                 else Inr None)
          else Inr None)"

definition makeApiRequestInternal ::
  "process_env \<Rightarrow> (jsstring \<Rightarrow> 'o requestInit_scheme \<Rightarrow> exn + response) \<Rightarrow>
   (jsstring \<Rightarrow> exn + json) \<Rightarrow> jsstring \<Rightarrow> jsstring \<Rightarrow> 'o requestInit_scheme \<Rightarrow>
   exn + json option" where
  "makeApiRequestInternal env fetch JSON_parse baseUrl endpoint options =
     (let url = baseUrl @ js ''/'' @ endpoint
      in case tryRequest fetch JSON_parse url (options\<lparr>headers := defaultHeaders env options\<rparr>) of
           Inl error \<Rightarrow> Inl (rethrow error)
         | Inr v \<Rightarrow> Inr v)"

text \<open>
  The two exported helpers resolve their base URL and call the internal one. They return
  its outcome, the warnings of the URL getter and the module's variables.
\<close>

definition makeManagementApiRequest ::
  "process_env \<Rightarrow> defaults \<Rightarrow> (jsstring \<Rightarrow> 'o requestInit_scheme \<Rightarrow> exn + response) \<Rightarrow>
   (jsstring \<Rightarrow> exn + json) \<Rightarrow> jsstring \<Rightarrow> 'o requestInit_scheme \<Rightarrow> api_state \<Rightarrow>
   (exn + json option) \<times> jsstring list \<times> api_state" where
  "makeManagementApiRequest env D fetch JSON_parse endpoint options s =
     (case getManageApiUrl env D s of
        (baseUrl, warnings, s') \<Rightarrow>
          (makeApiRequestInternal env fetch JSON_parse baseUrl endpoint options, warnings, s'))"

definition makeAgentsRunApiRequest ::
  "process_env \<Rightarrow> defaults \<Rightarrow> (jsstring \<Rightarrow> 'o requestInit_scheme \<Rightarrow> exn + response) \<Rightarrow>
   (jsstring \<Rightarrow> exn + json) \<Rightarrow> jsstring \<Rightarrow> 'o requestInit_scheme \<Rightarrow> api_state \<Rightarrow>
   (exn + json option) \<times> jsstring list \<times> api_state" where
  "makeAgentsRunApiRequest env D fetch JSON_parse endpoint options s =
     (case getRunApiUrl env D s of
        (baseUrl, warnings, s') \<Rightarrow>
          (makeApiRequestInternal env fetch JSON_parse baseUrl endpoint options, warnings, s'))"

section \<open>Example inputs\<close>

text \<open>
  Concrete collaborators and inputs, used to run the definitions above. The raw
  validation error is a JSON value and an error summary is a list of pairs of an element
  id and a message.
\<close>

definition exampleParse :: "json \<Rightarrow> exn + (jsstring \<times> jsstring) list" where
  "exampleParse raw =
     (case raw of
        JObj _ \<Rightarrow> Inr [(js ''agent-1'', js ''Agent needs a prompt'')]
      | _ \<Rightarrow> Inl (JsError (js ''Unrecognized error shape'')))"

definition exampleSummaryMessage :: "(jsstring \<times> jsstring) list \<Rightarrow> exn + jsstring option" where
  "exampleSummaryMessage summary =
     (case summary of [] \<Rightarrow> Inr None | (_, message) # _ \<Rightarrow> Inr (Some message))"

definition exampleStores :: "(jsstring \<times> jsstring) list stores" where
  "exampleStores = \<lparr>dirty = True, errors = Some [(js ''edge-1'', js ''Stale error'')]\<rparr>"

text \<open>
  A saved graph in which \<open>agent-1\<close> can use \<open>tool-1\<close> through two relationships, one
  in which it can use only \<open>tool-2\<close>, and MCP nodes of \<open>agent-1\<close> for \<open>tool-1\<close>.
\<close>

definition exampleGraph :: graphDefinition where
  "exampleGraph =
     \<lparr>agents = [js ''agent-1'' \<mapsto>
         \<lparr>canUse = Some [\<lparr>canUse_toolId = js ''tool-1'', agentToolRelationId = Some (js ''rel-1'')\<rparr>,
                         \<lparr>canUse_toolId = js ''tool-1'', agentToolRelationId = Some (js ''rel-2'')\<rparr>]\<rparr>],
      graph_id = Some (js ''graph-1'')\<rparr>"


definition exampleMcpNode :: "jsstring \<Rightarrow> jsstring option \<Rightarrow> node" where
  "exampleMcpNode nodeId relId =
     \<lparr>node_id = nodeId, node_type = Some MCP, node_position = (0, 0),
      node_data = \<lparr>name = Some (js ''Search''), isDefault = None, toolId = Some (js ''tool-1''),
                   agentId = Some (js ''agent-1''), relationshipId = relId, imageUrl = None,
                   provider = None\<rparr>,
      node_selected = None, node_deletable = None\<rparr>"


text \<open>Default URLs, environments, and servers that answer a request.\<close>

definition exampleDefaults :: defaults where
  "exampleDefaults =
     \<lparr>DEFAULT_INKEEP_AGENTS_MANAGE_API_URL = js ''http://localhost:3002'',
      DEFAULT_INKEEP_AGENTS_RUN_API_URL = js ''http://localhost:3003''\<rparr>"

definition exampleEnvEmptyUrl :: process_env where
  "exampleEnvEmptyUrl = [js ''INKEEP_AGENTS_MANAGE_API_URL'' \<mapsto> []]"

definition exampleEnvUrl :: process_env where
  "exampleEnvUrl = [js ''INKEEP_AGENTS_MANAGE_API_URL'' \<mapsto> js ''https://manage.example.com'']"

definition exampleEnvSecrets :: process_env where
  "exampleEnvSecrets =
     [js ''INKEEP_AGENTS_MANAGE_API_BYPASS_SECRET'' \<mapsto> js ''manage-secret'',
      js ''INKEEP_AGENTS_RUN_API_BYPASS_SECRET'' \<mapsto> js ''run-secret'']"

definition exampleEnvRunSecret :: process_env where
  "exampleEnvRunSecret = [js ''INKEEP_AGENTS_RUN_API_BYPASS_SECRET'' \<mapsto> js ''run-secret'']"

text \<open>A server that answers every request with the given status and JSON body.\<close>

definition exampleFailingServer :: "nat \<Rightarrow> json \<Rightarrow> jsstring \<Rightarrow> requestInit \<Rightarrow> exn + response" where
  "exampleFailingServer st body url init =
     Inr \<lparr>ok = False, status = st, contentType = Some (js ''application/json''),
          json_result = Inr body, text_result = Inr []\<rparr>"

text \<open>
  A server that accepts a request only when it carries the bearer token made from the
  given secret, and answers 401 otherwise.
\<close>

definition exampleUnauthorized :: json where
  "exampleUnauthorized =
     JObj [(js ''code'', JStr (js ''unauthorized'')),
           (js ''message'', JStr (js ''Invalid bypass secret''))]"

definition exampleProtectedServer :: "jsstring \<Rightarrow> jsstring \<Rightarrow> requestInit \<Rightarrow> exn + response" where
  "exampleProtectedServer secret url init =
     (if headers init (js ''Authorization'') = Some (js ''Bearer '' @ secret)
      then Inr \<lparr>ok = True, status = 200, contentType = None,
                json_result = Inl (JsError (js ''Unexpected end of JSON input'')),
                text_result = Inr []\<rparr>
      else Inr \<lparr>ok = False, status = 401, contentType = Some (js ''application/json''),
                json_result = Inr (JObj [(js ''error'', exampleUnauthorized)]),
                text_result = Inr []\<rparr>)"

definition exampleJSON_parse :: "jsstring \<Rightarrow> exn + json" where
  "exampleJSON_parse txt =
     (if txt = js ''null'' then Inr JNull
      else if txt = js ''{}'' then Inr (JObj [])
      else Inl (JsError (js ''Unexpected token'')))"

section \<open>Properties of the graph canvas\<close>

subsection \<open>Edge ids\<close>

lemma getEdgeId_min_max: "getEdgeId a b = js ''edge-'' @ min a b @ js ''-'' @ max a b"
  by (simp add: getEdgeId_def Let_def min_def max_def)

lemma onConnectWrapped_last:
  "last (onConnectWrapped H nodes params) = ExecuteAddPreparedEdge (newEdge H params) True"
  by (simp add: onConnectWrapped_def)

text \<open>
  C2. The edge id does not depend on the order of its two endpoints: \<open>getEdgeId a b\<close> and
  \<open>getEdgeId b a\<close> are the same string, namely \<open>edge-\<close>, the smaller id, \<open>-\<close> and the
  larger id. The edge that \<open>onConnectWrapped\<close> adds for a connection from a node \<open>n\<close> to
  itself has the id \<open>edge-self-\<close> followed by \<open>n\<close>, whatever the handles and the nodes
  on the canvas are.
\<close>

theorem edge_id_symmetric:
  "getEdgeId a b = getEdgeId b a \<and>
   getEdgeId a b = js ''edge-'' @ min a b @ js ''-'' @ max a b \<and>
   (\<exists>e. last (onConnectWrapped H nodes
               \<lparr>source = n, target = n, sourceHandle = sHandle, targetHandle = tHandle\<rparr>)
          = ExecuteAddPreparedEdge e True \<and>
        edge_id e = js ''edge-self-'' @ n)"
proof -
  have "getEdgeId a b = getEdgeId b a"
    by (simp add: getEdgeId_min_max min.commute max.commute)
  moreover have "edge_id (newEdge H \<lparr>source = n, target = n, sourceHandle = sHandle,
                                     targetHandle = tHandle\<rparr>) = js ''edge-self-'' @ n"
    by (simp add: newEdge_def Let_def)
  ultimately show ?thesis
    by (simp add: getEdgeId_min_max onConnectWrapped_last)
qed

subsection \<open>Connection inference and validity\<close>

text \<open>
  C1. The type and the relationship payload of the edge that \<open>onConnectWrapped\<close> adds are
  a function of the two handles and of whether source and target are the same node: a
  self-loop gives \<open>SelfLoop\<close> with only \<open>transferSourceToTarget\<close> set; otherwise two
  agent-control handles give \<open>A2A\<close> with the same flags; otherwise an agent-control
  source handle and the external-agent target handle give \<open>A2AExternal\<close> with only
  \<open>delegateSourceToTarget\<close> set; otherwise the edge has no type of its own (the canvas
  default applies) and no data.
\<close>

theorem connection_inference:
  "(\<exists>e. last (onConnectWrapped H nodes params) = ExecuteAddPreparedEdge e True \<and>
        (edge_type e, edge_data e) =
          (if source params = target params
             then (Some SelfLoop, Some \<lparr>relationships = transferDefaults\<rparr>)
           else if isAgentControlHandle H (sourceHandle params) \<and>
                   isAgentControlHandle H (targetHandle params)
             then (Some A2A, Some \<lparr>relationships = transferDefaults\<rparr>)
           else if isAgentControlHandle H (sourceHandle params) \<and>
                   targetHandle params = Some (externalAgentNodeTargetHandleId H)
             then (Some A2AExternal, Some \<lparr>relationships = delegateDefaults\<rparr>)
           else (None, None))) \<and>
   transferDefaults = \<lparr>transferTargetToSource = False, transferSourceToTarget = True,
                        delegateTargetToSource = False, delegateSourceToTarget = False\<rparr> \<and>
   delegateDefaults = \<lparr>transferTargetToSource = False, transferSourceToTarget = False,
                        delegateTargetToSource = False, delegateSourceToTarget = True\<rparr>"
proof -
  have "(edge_type (newEdge H params), edge_data (newEdge H params)) =
          (if source params = target params
             then (Some SelfLoop, Some \<lparr>relationships = transferDefaults\<rparr>)
           else if isAgentControlHandle H (sourceHandle params) \<and>
                   isAgentControlHandle H (targetHandle params)
             then (Some A2A, Some \<lparr>relationships = transferDefaults\<rparr>)
           else if isAgentControlHandle H (sourceHandle params) \<and>
                   targetHandle params = Some (externalAgentNodeTargetHandleId H)
             then (Some A2AExternal, Some \<lparr>relationships = delegateDefaults\<rparr>)
           else (None, None))"
    by (auto simp add: newEdge_def Let_def isAgentControlHandle_def)
  then show ?thesis
    by (simp add: onConnectWrapped_last transferDefaults_def delegateDefaults_def)
qed

text \<open>
  C4. \<open>isValidConnection\<close> refuses a connection exactly when its source handle and its
  target handle are both the MCP handle; every other pair of handles is accepted.
\<close>

theorem isValidConnection_iff:
  "isValidConnection H sHandle tHandle =
     (\<not> (sHandle = Some (mcpNodeHandleId H) \<and> tHandle = Some (mcpNodeHandleId H)))"
  by (simp add: isValidConnection_def)

subsection \<open>The initial canvas\<close>

text \<open>
  Without a graph the canvas starts from exactly one node and no edge. The node is an
  agent node at the origin, marked as the default agent, and its \<open>deletable\<close> flag is
  false. The flag is all that the sources at hand say about deletion: nodes are removed
  by the canvas library and the graph store, which are not part of them, so nothing is
  stated here about whether the node can be removed.
\<close>

lemma initial_canvas:
  "\<exists>n. graphNodesAndEdges deserializeGraphData toolLookup toolType nanoid None = ([n], []) \<and>
       node_type n = Some Agent \<and> node_position n = (0, 0) \<and>
       isDefault (node_data n) = Some True \<and> node_deletable n = Some False"
  by (simp add: graphNodesAndEdges_def initialNodes_def initialEdges_def enrichNodes_def
      enrichNode_def)


subsection \<open>Saving: the failure branch\<close>

text \<open>
  C5. When the save operation returns failure, no exception leaves \<open>onSubmit\<close>. If the
  validation error parses, the summary is stored with \<open>setErrors\<close> and an error
  notification is shown: the summary's message, or a fixed text when it has none. If
  \<open>parseGraphValidationErrors\<close> throws, the exception is logged to the console and the
  generic notification \<open>Failed to save graph\<close> is shown. (If the summary parses and
  \<open>getErrorSummaryMessage\<close> throws, the summary is stored, the exception is logged and
  the generic notification is shown.) The calls before the save, here the optional
  warning about orphaned tools, come first in each case.
\<close>

theorem onSubmit_failure_handled:
  assumes "saved = Inr (SaveFailure error)"
  shows "snd (onSubmit warningMessage saved parseGraphValidationErrors getErrorSummaryMessage
                tenantId projectId graphId currentNodes) = None \<and>
         (\<forall>summary message.
            parseGraphValidationErrors error = Inr summary \<and>
            getErrorSummaryMessage summary = Inr message \<longrightarrow>
            fst (onSubmit warningMessage saved parseGraphValidationErrors getErrorSummaryMessage
                   tenantId projectId graphId currentNodes) =
              (if truthy warningMessage then [ToastWarning (the warningMessage)] else []) @
              [SetErrors summary,
               ToastError (if truthy message then the message
                           else js ''Failed to save graph - validation errors found'') False]) \<and>
         (\<forall>parseError.
            parseGraphValidationErrors error = Inl parseError \<longrightarrow>
            fst (onSubmit warningMessage saved parseGraphValidationErrors getErrorSummaryMessage
                   tenantId projectId graphId currentNodes) =
              (if truthy warningMessage then [ToastWarning (the warningMessage)] else []) @
              [ConsoleError (js ''Failed to parse validation errors:'') parseError,
               ToastError (js ''Failed to save graph'') True]) \<and>
         (\<forall>summary parseError.
            parseGraphValidationErrors error = Inr summary \<and>
            getErrorSummaryMessage summary = Inl parseError \<longrightarrow>
            fst (onSubmit warningMessage saved parseGraphValidationErrors getErrorSummaryMessage
                   tenantId projectId graphId currentNodes) =
              (if truthy warningMessage then [ToastWarning (the warningMessage)] else []) @
              [SetErrors summary,
               ConsoleError (js ''Failed to parse validation errors:'') parseError,
               ToastError (js ''Failed to save graph'') True])"
  using assms by (auto simp add: onSubmit_def Let_def split: sum.splits)

theorem onSubmit_failure_handled_witness:
  "onSubmit None (Inr (SaveFailure (JObj []) :: (unit, json) saveResult))
     exampleParse exampleSummaryMessage (js ''tenant'') (js ''project'') None [] =
     ([SetErrors [(js ''agent-1'', js ''Agent needs a prompt'')],
       ToastError (js ''Agent needs a prompt'') False], None) \<and>
   onSubmit None (Inr (SaveFailure JNull :: (unit, json) saveResult))
     exampleParse exampleSummaryMessage (js ''tenant'') (js ''project'') None [] =
     ([ConsoleError (js ''Failed to parse validation errors:'')
         (JsError (js ''Unrecognized error shape'')),
       ToastError (js ''Failed to save graph'') True], None)"
proof -
  let ?run = "\<lambda>raw. onSubmit None (Inr (SaveFailure raw :: (unit, json) saveResult))
     exampleParse exampleSummaryMessage (js ''tenant'') (js ''project'') None []"
  have p1: "exampleParse (JObj []) = Inr [(js ''agent-1'', js ''Agent needs a prompt'')]"
    by (simp add: exampleParse_def)
  have m1: "exampleSummaryMessage [(js ''agent-1'', js ''Agent needs a prompt'')] =
              Inr (Some (js ''Agent needs a prompt''))"
    by (simp add: exampleSummaryMessage_def)
  have p2: "exampleParse JNull = Inl (JsError (js ''Unrecognized error shape''))"
    by (simp add: exampleParse_def)
  have t: "truthy (Some (js ''Agent needs a prompt''))"
    by (simp add: js_def)
  note a = onSubmit_failure_handled [where error = "JObj []"
      and saved = "Inr (SaveFailure (JObj [])) :: exn + (unit, json) saveResult"
      and warningMessage = None
      and parseGraphValidationErrors = exampleParse
      and getErrorSummaryMessage = exampleSummaryMessage and tenantId = "js ''tenant''"
      and projectId = "js ''project''" and graphId = None and currentNodes = "[]"]
  note b = onSubmit_failure_handled [where error = JNull
      and saved = "Inr (SaveFailure JNull) :: exn + (unit, json) saveResult"
      and warningMessage = None
      and parseGraphValidationErrors = exampleParse
      and getErrorSummaryMessage = exampleSummaryMessage and tenantId = "js ''tenant''"
      and projectId = "js ''project''" and graphId = None and currentNodes = "[]"]
  have "snd (?run (JObj [])) = None" using a by simp
  moreover have "fst (?run (JObj [])) = [SetErrors [(js ''agent-1'', js ''Agent needs a prompt'')],
       ToastError (js ''Agent needs a prompt'') False]"
    using a p1 m1 t by simp
  moreover have "snd (?run JNull) = None" using b by simp
  moreover have "fst (?run JNull) = [ConsoleError (js ''Failed to parse validation errors:'')
         (JsError (js ''Unrecognized error shape'')),
       ToastError (js ''Failed to save graph'') True]"
    using b p2 by simp
  ultimately show ?thesis by (simp add: prod_eq_iff)
qed

subsection \<open>Saving: when the graph counts as saved\<close>

text \<open>
  C6. \<open>onSubmit\<close> calls \<open>markSaved\<close> exactly when the save operation returns success, and
  the same holds for \<open>clearErrors\<close>. When the save does not return success, the dirty
  flag is what it was before, and the stored error summary is the newly parsed one if the
  validation error parsed and the previous one otherwise.
\<close>

theorem onSubmit_saved_iff_success:
  "(MarkSaved \<in> set (fst (onSubmit warningMessage saved parseGraphValidationErrors
                             getErrorSummaryMessage tenantId projectId graphId currentNodes))
      \<longleftrightarrow> returnsSuccess saved) \<and>
   (ClearErrors \<in> set (fst (onSubmit warningMessage saved parseGraphValidationErrors
                              getErrorSummaryMessage tenantId projectId graphId currentNodes))
      \<longleftrightarrow> returnsSuccess saved) \<and>
   (\<not> returnsSuccess saved \<longrightarrow>
      dirty (applyEffects (fst (onSubmit warningMessage saved parseGraphValidationErrors
                getErrorSummaryMessage tenantId projectId graphId currentNodes)) st) = dirty st \<and>
      errors (applyEffects (fst (onSubmit warningMessage saved parseGraphValidationErrors
                getErrorSummaryMessage tenantId projectId graphId currentNodes)) st) =
        (case saved of
           Inr (SaveFailure error) \<Rightarrow>
             (case parseGraphValidationErrors error of
                Inr summary \<Rightarrow> Some summary
              | Inl _ \<Rightarrow> errors st)
         | _ \<Rightarrow> errors st))"
proof (cases saved)
  case (Inl e)
  then show ?thesis
    by (simp add: onSubmit_def returnsSuccess_def applyEffects_def)
next
  case (Inr res)
  show ?thesis
  proof (cases res)
    case (SaveSuccess resData)
    with Inr show ?thesis
      by (auto simp add: onSubmit_def returnsSuccess_def Let_def split: option.splits sum.splits)
  next
    case (SaveFailure error)
    with Inr show ?thesis
      by (auto simp add: onSubmit_def returnsSuccess_def applyEffects_def Let_def
          split: sum.splits)
  qed
qed

theorem onSubmit_saved_iff_success_witness:
  "\<not> returnsSuccess (Inr (SaveFailure (JObj [])) :: exn + (unit, json) saveResult) \<and>
   MarkSaved \<notin> set (fst (onSubmit None (Inr (SaveFailure (JObj []) :: (unit, json) saveResult))
       exampleParse exampleSummaryMessage (js ''tenant'') (js ''project'') None [])) \<and>
   dirty (applyEffects (fst (onSubmit None (Inr (SaveFailure (JObj []) :: (unit, json) saveResult))
       exampleParse exampleSummaryMessage (js ''tenant'') (js ''project'') None [])) exampleStores)
     = True \<and>
   errors (applyEffects (fst (onSubmit None (Inr (SaveFailure (JObj []) :: (unit, json) saveResult))
       exampleParse exampleSummaryMessage (js ''tenant'') (js ''project'') None [])) exampleStores)
     = Some [(js ''agent-1'', js ''Agent needs a prompt'')]"
proof -
  have n: "\<not> returnsSuccess (Inr (SaveFailure (JObj [])) :: exn + (unit, json) saveResult)"
    by (simp add: returnsSuccess_def)
  have p1: "exampleParse (JObj []) = Inr [(js ''agent-1'', js ''Agent needs a prompt'')]"
    by (simp add: exampleParse_def)
  note a = onSubmit_saved_iff_success [where saved = "Inr (SaveFailure (JObj []) :: (unit, json) saveResult)"
      and warningMessage = None and parseGraphValidationErrors = exampleParse
      and getErrorSummaryMessage = exampleSummaryMessage and tenantId = "js ''tenant''"
      and projectId = "js ''project''" and graphId = None and currentNodes = "[]"
      and st = exampleStores]
  show ?thesis using a n p1 by (simp add: exampleStores_def)
qed


subsection \<open>Saving: reconciliation of relationship ids\<close>









lemma relationshipId_withRelationshipId [simp]:
  "relationshipId (node_data (withRelationshipId n r)) = Some r"
  by (simp add: withRelationshipId_def)




















text \<open>
  The set of processed ids starts empty, so an id that a node already holds is not
  excluded from the search: here the new node receives \<open>rel-1\<close>, which the first node
  holds already, and \<open>rel-2\<close> is left over.
\<close>

lemma held_relationship_id_not_excluded:
  "updateRelationshipIds exampleGraph
     [exampleMcpNode (js ''mcp-1'') (Some (js ''rel-1'')), exampleMcpNode (js ''mcp-2'') None] =
   Inr [exampleMcpNode (js ''mcp-1'') (Some (js ''rel-1'')),
        exampleMcpNode (js ''mcp-2'') (Some (js ''rel-1''))]"
  by (simp add: updateRelationshipIds_def reconcileNode_def exampleMcpNode_def
      exampleGraph_def js_def)


section \<open>Properties of the API configuration\<close>

subsection \<open>Lazy base URLs\<close>

lemma getRunApiUrl_manage [simp]:
  "INKEEP_AGENTS_MANAGE_API_URL (snd (snd (getRunApiUrl env D s))) = INKEEP_AGENTS_MANAGE_API_URL s"
  "hasWarnedManageApi (snd (snd (getRunApiUrl env D s))) = hasWarnedManageApi s"
  by (simp_all add: getRunApiUrl_def Let_def split: option.splits)

lemma getManageApiUrl_run [simp]:
  "INKEEP_AGENTS_RUN_API_URL (snd (snd (getManageApiUrl env D s))) = INKEEP_AGENTS_RUN_API_URL s"
  "hasWarnedRunApi (snd (snd (getManageApiUrl env D s))) = hasWarnedRunApi s"
  by (simp_all add: getManageApiUrl_def Let_def split: option.splits)

lemma getManageApiUrl_cached:
  "INKEEP_AGENTS_MANAGE_API_URL s = Some url \<Longrightarrow> getManageApiUrl env D s = (url, [], s)"
  by (simp add: getManageApiUrl_def)

lemma getRunApiUrl_cached:
  "INKEEP_AGENTS_RUN_API_URL s = Some url \<Longrightarrow> getRunApiUrl env D s = (url, [], s)"
  by (simp add: getRunApiUrl_def)

lemma callGetters_step:
  "fst (callGetters env D (g # gs) s) =
     (g, fst (case g of ManageApiUrl \<Rightarrow> getManageApiUrl env D s | RunApiUrl \<Rightarrow> getRunApiUrl env D s),
         fst (snd (case g of ManageApiUrl \<Rightarrow> getManageApiUrl env D s | RunApiUrl \<Rightarrow> getRunApiUrl env D s))) #
     fst (callGetters env D gs
            (snd (snd (case g of ManageApiUrl \<Rightarrow> getManageApiUrl env D s
                               | RunApiUrl \<Rightarrow> getRunApiUrl env D s))))"
  by (simp split: prod.splits)

lemma manage_cached_outcomes:
  "INKEEP_AGENTS_MANAGE_API_URL s = Some url \<Longrightarrow>
   outcomesOf ManageApiUrl (fst (callGetters env D gs s)) =
     replicate (count_list gs ManageApiUrl) (url, [])"
proof (induction gs arbitrary: s)
  case Nil
  then show ?case by (simp add: outcomesOf_def)
next
  case (Cons g gs)
  show ?case
  proof (cases g)
    case ManageApiUrl
    with Cons.prems Cons.IH [of s] show ?thesis
      by (simp add: callGetters_step getManageApiUrl_cached outcomesOf_def del: callGetters.simps)
  next
    case RunApiUrl
    with Cons.prems Cons.IH [of "snd (snd (getRunApiUrl env D s))"] show ?thesis
      by (simp add: callGetters_step outcomesOf_def del: callGetters.simps)
  qed
qed

lemma run_cached_outcomes:
  "INKEEP_AGENTS_RUN_API_URL s = Some url \<Longrightarrow>
   outcomesOf RunApiUrl (fst (callGetters env D gs s)) =
     replicate (count_list gs RunApiUrl) (url, [])"
proof (induction gs arbitrary: s)
  case Nil
  then show ?case by (simp add: outcomesOf_def)
next
  case (Cons g gs)
  show ?case
  proof (cases g)
    case RunApiUrl
    with Cons.prems Cons.IH [of s] show ?thesis
      by (simp add: callGetters_step getRunApiUrl_cached outcomesOf_def del: callGetters.simps)
  next
    case ManageApiUrl
    with Cons.prems Cons.IH [of "snd (snd (getManageApiUrl env D s))"] show ?thesis
      by (simp add: callGetters_step outcomesOf_def del: callGetters.simps)
  qed
qed

lemma manage_fresh_outcomes:
  "INKEEP_AGENTS_MANAGE_API_URL s = None \<Longrightarrow> \<not> hasWarnedManageApi s \<Longrightarrow>
   outcomesOf ManageApiUrl (fst (callGetters env D gs s)) =
     (if truthy (env (js ''INKEEP_AGENTS_MANAGE_API_URL''))
      then replicate (count_list gs ManageApiUrl) (the (env (js ''INKEEP_AGENTS_MANAGE_API_URL'')), [])
      else warnsOnce (DEFAULT_INKEEP_AGENTS_MANAGE_API_URL D) (manageWarning D)
             (count_list gs ManageApiUrl))"
proof (induction gs arbitrary: s)
  case Nil
  then show ?case by (simp add: outcomesOf_def)
next
  case (Cons g gs)
  show ?case
  proof (cases g)
    case RunApiUrl
    with Cons.prems Cons.IH [of "snd (snd (getRunApiUrl env D s))"] show ?thesis
      by (simp add: callGetters_step outcomesOf_def del: callGetters.simps)
  next
    case ManageApiUrl
    let ?r = "getManageApiUrl env D s"
    have first: "fst ?r = (if truthy (env (js ''INKEEP_AGENTS_MANAGE_API_URL''))
                           then the (env (js ''INKEEP_AGENTS_MANAGE_API_URL''))
                           else DEFAULT_INKEEP_AGENTS_MANAGE_API_URL D)"
      "fst (snd ?r) = (if truthy (env (js ''INKEEP_AGENTS_MANAGE_API_URL'')) then []
                       else [manageWarning D])"
      "INKEEP_AGENTS_MANAGE_API_URL (snd (snd ?r)) = Some (fst ?r)"
      using Cons.prems by (simp_all add: getManageApiUrl_def Let_def manageWarning_def)
    have rest: "outcomesOf ManageApiUrl (fst (callGetters env D gs (snd (snd ?r)))) =
                  replicate (count_list gs ManageApiUrl) (fst ?r, [])"
      using first(3) by (rule manage_cached_outcomes)
    have "outcomesOf ManageApiUrl (fst (callGetters env D (g # gs) s)) =
            (fst ?r, fst (snd ?r)) #
            outcomesOf ManageApiUrl (fst (callGetters env D gs (snd (snd ?r))))"
      using ManageApiUrl by (simp add: callGetters_step outcomesOf_def del: callGetters.simps)
    with rest first(1,2) ManageApiUrl show ?thesis by simp
  qed
qed

lemma run_fresh_outcomes:
  "INKEEP_AGENTS_RUN_API_URL s = None \<Longrightarrow> \<not> hasWarnedRunApi s \<Longrightarrow>
   outcomesOf RunApiUrl (fst (callGetters env D gs s)) =
     (if truthy (env (js ''INKEEP_AGENTS_RUN_API_URL''))
      then replicate (count_list gs RunApiUrl) (the (env (js ''INKEEP_AGENTS_RUN_API_URL'')), [])
      else warnsOnce (DEFAULT_INKEEP_AGENTS_RUN_API_URL D) (runWarning D)
             (count_list gs RunApiUrl))"
proof (induction gs arbitrary: s)
  case Nil
  then show ?case by (simp add: outcomesOf_def)
next
  case (Cons g gs)
  show ?case
  proof (cases g)
    case ManageApiUrl
    with Cons.prems Cons.IH [of "snd (snd (getManageApiUrl env D s))"] show ?thesis
      by (simp add: callGetters_step outcomesOf_def del: callGetters.simps)
  next
    case RunApiUrl
    let ?r = "getRunApiUrl env D s"
    have first: "fst ?r = (if truthy (env (js ''INKEEP_AGENTS_RUN_API_URL''))
                           then the (env (js ''INKEEP_AGENTS_RUN_API_URL''))
                           else DEFAULT_INKEEP_AGENTS_RUN_API_URL D)"
      "fst (snd ?r) = (if truthy (env (js ''INKEEP_AGENTS_RUN_API_URL'')) then []
                       else [runWarning D])"
      "INKEEP_AGENTS_RUN_API_URL (snd (snd ?r)) = Some (fst ?r)"
      using Cons.prems by (simp_all add: getRunApiUrl_def Let_def runWarning_def)
    have rest: "outcomesOf RunApiUrl (fst (callGetters env D gs (snd (snd ?r)))) =
                  replicate (count_list gs RunApiUrl) (fst ?r, [])"
      using first(3) by (rule run_cached_outcomes)
    have "outcomesOf RunApiUrl (fst (callGetters env D (g # gs) s)) =
            (fst ?r, fst (snd ?r)) #
            outcomesOf RunApiUrl (fst (callGetters env D gs (snd (snd ?r))))"
      using RunApiUrl by (simp add: callGetters_step outcomesOf_def del: callGetters.simps)
    with rest first(1,2) RunApiUrl show ?thesis by simp
  qed
qed

text \<open>
  C9 as stated fails: with \<open>INKEEP_AGENTS_MANAGE_API_URL\<close> set to the empty string, the
  first call of \<open>getManageApiUrl\<close> warns and returns the default URL, although the
  variable is set.
\<close>

theorem empty_url_variable_counterexample:
  "exampleEnvEmptyUrl (js ''INKEEP_AGENTS_MANAGE_API_URL'') = Some [] \<and>
   fst (callGetters exampleEnvEmptyUrl exampleDefaults [ManageApiUrl] initial_api_state) =
     [(ManageApiUrl, js ''http://localhost:3002'',
       [js ''INKEEP_AGENTS_MANAGE_API_URL is not set, falling back to: http://localhost:3002''])]"
  by (simp add: exampleEnvEmptyUrl_def exampleDefaults_def initial_api_state_def
      getManageApiUrl_def Let_def js_def)

text \<open>
  C9 (amended). Take any sequence of calls of the two getters, starting from the module's
  initial state. While \<open>INKEEP_AGENTS_MANAGE_API_URL\<close> is unset or empty, the first call
  of \<open>getManageApiUrl\<close> in the sequence writes the fallback warning, no later call
  writes anything, and every call returns the default URL. While the variable is set to a
  non-empty value, no call warns and every call returns that value. The same holds for
  \<open>getRunApiUrl\<close> and \<open>INKEEP_AGENTS_RUN_API_URL\<close>.
\<close>

theorem url_warning_once:
  "(\<not> truthy (env (js ''INKEEP_AGENTS_MANAGE_API_URL'')) \<longrightarrow>
      outcomesOf ManageApiUrl (fst (callGetters env D gs initial_api_state)) =
        warnsOnce (DEFAULT_INKEEP_AGENTS_MANAGE_API_URL D) (manageWarning D)
          (count_list gs ManageApiUrl)) \<and>
   (truthy (env (js ''INKEEP_AGENTS_MANAGE_API_URL'')) \<longrightarrow>
      outcomesOf ManageApiUrl (fst (callGetters env D gs initial_api_state)) =
        replicate (count_list gs ManageApiUrl) (the (env (js ''INKEEP_AGENTS_MANAGE_API_URL'')), [])) \<and>
   (\<not> truthy (env (js ''INKEEP_AGENTS_RUN_API_URL'')) \<longrightarrow>
      outcomesOf RunApiUrl (fst (callGetters env D gs initial_api_state)) =
        warnsOnce (DEFAULT_INKEEP_AGENTS_RUN_API_URL D) (runWarning D)
          (count_list gs RunApiUrl)) \<and>
   (truthy (env (js ''INKEEP_AGENTS_RUN_API_URL'')) \<longrightarrow>
      outcomesOf RunApiUrl (fst (callGetters env D gs initial_api_state)) =
        replicate (count_list gs RunApiUrl) (the (env (js ''INKEEP_AGENTS_RUN_API_URL'')), []))"
proof -
  have m: "INKEEP_AGENTS_MANAGE_API_URL initial_api_state = None"
    "\<not> hasWarnedManageApi initial_api_state"
    and r: "INKEEP_AGENTS_RUN_API_URL initial_api_state = None"
    "\<not> hasWarnedRunApi initial_api_state"
    by (simp_all add: initial_api_state_def)
  show ?thesis
    using manage_fresh_outcomes [OF m, of env D gs] run_fresh_outcomes [OF r, of env D gs]
    by simp
qed

theorem url_warning_once_witness:
  "\<not> truthy (Map.empty (js ''INKEEP_AGENTS_MANAGE_API_URL'')) \<and>
   outcomesOf ManageApiUrl
     (fst (callGetters Map.empty exampleDefaults [ManageApiUrl, RunApiUrl, ManageApiUrl]
             initial_api_state)) =
     [(js ''http://localhost:3002'', [manageWarning exampleDefaults]),
      (js ''http://localhost:3002'', [])] \<and>
   outcomesOf RunApiUrl
     (fst (callGetters Map.empty exampleDefaults [ManageApiUrl, RunApiUrl, ManageApiUrl]
             initial_api_state)) =
     [(js ''http://localhost:3003'', [runWarning exampleDefaults])] \<and>
   truthy (exampleEnvUrl (js ''INKEEP_AGENTS_MANAGE_API_URL'')) \<and>
   outcomesOf ManageApiUrl
     (fst (callGetters exampleEnvUrl exampleDefaults [ManageApiUrl, ManageApiUrl]
             initial_api_state)) =
     [(js ''https://manage.example.com'', []), (js ''https://manage.example.com'', [])]"
proof -
  have unset: "\<not> truthy (Map.empty (js ''INKEEP_AGENTS_MANAGE_API_URL''))"
    "\<not> truthy (Map.empty (js ''INKEEP_AGENTS_RUN_API_URL''))"
    by simp_all
  have set: "truthy (exampleEnvUrl (js ''INKEEP_AGENTS_MANAGE_API_URL''))"
    "the (exampleEnvUrl (js ''INKEEP_AGENTS_MANAGE_API_URL'')) = js ''https://manage.example.com''"
    by (simp_all add: exampleEnvUrl_def js_def)
  note a = url_warning_once [of Map.empty exampleDefaults "[ManageApiUrl, RunApiUrl, ManageApiUrl]"]
  note b = url_warning_once [of exampleEnvUrl exampleDefaults "[ManageApiUrl, ManageApiUrl]"]
  have "outcomesOf ManageApiUrl
     (fst (callGetters Map.empty exampleDefaults [ManageApiUrl, RunApiUrl, ManageApiUrl]
             initial_api_state)) =
     [(js ''http://localhost:3002'', [manageWarning exampleDefaults]),
      (js ''http://localhost:3002'', [])]"
    using a unset by (simp add: exampleDefaults_def)
  moreover have "outcomesOf RunApiUrl
     (fst (callGetters Map.empty exampleDefaults [ManageApiUrl, RunApiUrl, ManageApiUrl]
             initial_api_state)) =
     [(js ''http://localhost:3003'', [runWarning exampleDefaults])]"
    using a unset by (simp add: exampleDefaults_def)
  moreover have "outcomesOf ManageApiUrl
     (fst (callGetters exampleEnvUrl exampleDefaults [ManageApiUrl, ManageApiUrl]
             initial_api_state)) =
     [(js ''https://manage.example.com'', []), (js ''https://manage.example.com'', [])]"
    using b set by (simp add: numeral_2_eq_2)
  ultimately show ?thesis using unset(1) set(1) by simp
qed


subsection \<open>Failed requests\<close>

lemma rethrow_ApiError: "\<exists>payload st. rethrow e = ApiError payload st"
  by (cases e) simp_all

lemma makeApiRequestInternal_Inl:
  "makeApiRequestInternal env fetch JSON_parse baseUrl endpoint options = Inl e \<Longrightarrow>
   \<exists>payload st. e = ApiError payload st"
  using rethrow_ApiError
  by (auto simp add: makeApiRequestInternal_def Let_def split: sum.splits)

lemma errorMember_bodyError:
  "body \<noteq> JNull \<Longrightarrow>
   \<exists>member. errorMember body = Inr member \<and>
     (case member of Some v \<Rightarrow> if truthy_json v then v else unknownError | None \<Rightarrow> unknownError) =
     (case bodyError body of Some v \<Rightarrow> v | None \<Rightarrow> unknownError)"
  by (cases body) (auto split: option.splits)

lemma errorMember_fallback:
  "errorMember (JObj [(js ''error'', unknownError)]) = Inr (Some unknownError)"
  "truthy_json unknownError"
  by (simp_all add: unknownError_def)

lemma tryRequest_not_ok_unparseable:
  "fetch url init = Inr resp \<Longrightarrow> \<not> ok resp \<Longrightarrow> json_result resp = Inl e \<Longrightarrow>
   tryRequest fetch JSON_parse url init = Inl (ApiError unknownError (status resp))"
  by (simp add: tryRequest_def errorMember_fallback del: errorMember.simps)

lemma tryRequest_not_ok_body:
  assumes "fetch url init = Inr resp" "\<not> ok resp" "json_result resp = Inr body" "body \<noteq> JNull"
  shows "tryRequest fetch JSON_parse url init =
           Inl (ApiError (case bodyError body of Some v \<Rightarrow> v | None \<Rightarrow> unknownError) (status resp))"
proof -
  from errorMember_bodyError [OF assms(4)] obtain member where
    "errorMember body = Inr member"
    "(case member of Some v \<Rightarrow> if truthy_json v then v else unknownError | None \<Rightarrow> unknownError) =
     (case bodyError body of Some v \<Rightarrow> v | None \<Rightarrow> unknownError)"
    by blast
  with assms(1-3) show ?thesis
    by (simp add: tryRequest_def)
qed

text \<open>
  C7 as stated fails twice. A 404 whose body is parseable JSON with a code and a message
  of its own, but no member \<open>error\<close>, is reported with the fallback payload; and a 404
  whose body is the JSON value \<open>null\<close> is reported as an internal server error with
  status 500 instead of the response's status.
\<close>

theorem failed_response_counterexample:
  "makeApiRequestInternal Map.empty
     (exampleFailingServer 404
        (JObj [(js ''code'', JStr (js ''not_found'')), (js ''message'', JStr (js ''Graph not found''))]))
     exampleJSON_parse (js ''http://localhost:3002'') (js ''graphs/g1'') \<lparr>headers = Map.empty\<rparr> =
     Inl (ApiError (JObj [(js ''code'', JStr (js ''unknown'')),
                          (js ''message'', JStr (js ''Unknown error occurred''))]) 404) \<and>
   makeApiRequestInternal Map.empty (exampleFailingServer 404 JNull)
     exampleJSON_parse (js ''http://localhost:3002'') (js ''graphs/g1'') \<lparr>headers = Map.empty\<rparr> =
     Inl (ApiError (JObj [(js ''code'', JStr (js ''internal_server_error'')),
                          (js ''message'', JStr nullPropertyMessage)]) 500)"
  by (simp add: makeApiRequestInternal_def tryRequest_def exampleFailingServer_def
      unknownError_def internalServerError_def js_def)

text \<open>
  C7 (amended). Let a request be made through \<open>makeApiRequestInternal\<close>, which both
  exported helpers call with their base URL.
  \<^item> A response that is not ok makes it throw an \<open>ApiError\<close> with the response's status.
    The payload is the fallback \<open>{code: 'unknown', message: 'Unknown error occurred'}\<close>
    when the body is not parseable JSON; for a body that parses to a value other than
    \<open>null\<close> it is the body's member \<open>error\<close> when that is truthy and the fallback
    otherwise.
  \<^item> When \<open>fetch\<close> fails with an error that is not an \<open>ApiError\<close>, it throws an
    \<open>ApiError\<close> with code \<open>internal_server_error\<close> and status 500, whose message is the
    error's message, or \<open>Network error occurred\<close> for a value that is not an \<open>Error\<close>.
  \<^item> Whatever it throws is an \<open>ApiError\<close>.
\<close>

theorem failed_request_throws_ApiError:
  "(\<forall>resp. fetch (baseUrl @ js ''/'' @ endpoint) (options\<lparr>headers := defaultHeaders env options\<rparr>)
             = Inr resp \<and> \<not> ok resp \<longrightarrow>
      (\<forall>e. json_result resp = Inl e \<longrightarrow>
         makeApiRequestInternal env fetch JSON_parse baseUrl endpoint options =
           Inl (ApiError unknownError (status resp))) \<and>
      (\<forall>body. json_result resp = Inr body \<and> body \<noteq> JNull \<longrightarrow>
         makeApiRequestInternal env fetch JSON_parse baseUrl endpoint options =
           Inl (ApiError (case bodyError body of Some v \<Rightarrow> v | None \<Rightarrow> unknownError)
                         (status resp)))) \<and>
   (\<forall>message. fetch (baseUrl @ js ''/'' @ endpoint) (options\<lparr>headers := defaultHeaders env options\<rparr>)
                = Inl (JsError message) \<longrightarrow>
      makeApiRequestInternal env fetch JSON_parse baseUrl endpoint options =
        Inl (ApiError (JObj [(js ''code'', JStr (js ''internal_server_error'')),
                             (js ''message'', JStr message)]) 500)) \<and>
   (fetch (baseUrl @ js ''/'' @ endpoint) (options\<lparr>headers := defaultHeaders env options\<rparr>)
      = Inl NonError \<longrightarrow>
      makeApiRequestInternal env fetch JSON_parse baseUrl endpoint options =
        Inl (ApiError (JObj [(js ''code'', JStr (js ''internal_server_error'')),
                             (js ''message'', JStr (js ''Network error occurred''))]) 500)) \<and>
   (\<forall>e. makeApiRequestInternal env fetch JSON_parse baseUrl endpoint options = Inl e \<longrightarrow>
      (\<exists>payload st. e = ApiError payload st)) \<and>
   fst (makeManagementApiRequest env D fetch JSON_parse endpoint options s) =
     makeApiRequestInternal env fetch JSON_parse (fst (getManageApiUrl env D s)) endpoint options \<and>
   fst (makeAgentsRunApiRequest env D fetch JSON_parse endpoint options s) =
     makeApiRequestInternal env fetch JSON_parse (fst (getRunApiUrl env D s)) endpoint options"
proof -
  let ?url = "baseUrl @ js ''/'' @ endpoint"
  let ?init = "options\<lparr>headers := defaultHeaders env options\<rparr>"
  let ?R = "makeApiRequestInternal env fetch JSON_parse baseUrl endpoint options"
  have R: "?R = (case tryRequest fetch JSON_parse ?url ?init of
                   Inl error \<Rightarrow> Inl (rethrow error) | Inr v \<Rightarrow> Inr v)"
    by (simp add: makeApiRequestInternal_def Let_def)
  have a: "?R = Inl (ApiError unknownError (status resp))"
    if "fetch ?url ?init = Inr resp" "\<not> ok resp" "json_result resp = Inl e" for resp e
    using tryRequest_not_ok_unparseable [where fetch = fetch and url = "?url" and init = "?init"
        and JSON_parse = JSON_parse, OF that]
    by (simp add: R)
  have b: "?R = Inl (ApiError (case bodyError body of Some v \<Rightarrow> v | None \<Rightarrow> unknownError)
                              (status resp))"
    if "fetch ?url ?init = Inr resp" "\<not> ok resp" "json_result resp = Inr body" "body \<noteq> JNull"
    for resp body
    using tryRequest_not_ok_body [where fetch = fetch and url = "?url" and init = "?init"
        and JSON_parse = JSON_parse, OF that]
    by (simp add: R)
  have c: "?R = Inl (ApiError (JObj [(js ''code'', JStr (js ''internal_server_error'')),
                             (js ''message'', JStr message)]) 500)"
    if "fetch ?url ?init = Inl (JsError message)" for message
    using that by (simp add: R tryRequest_def internalServerError_def)
  have d: "?R = Inl (ApiError (JObj [(js ''code'', JStr (js ''internal_server_error'')),
                             (js ''message'', JStr (js ''Network error occurred''))]) 500)"
    if "fetch ?url ?init = Inl NonError"
    using that by (simp add: R tryRequest_def internalServerError_def)
  have e: "\<exists>payload st. e = ApiError payload st" if "?R = Inl e" for e
    using that by (rule makeApiRequestInternal_Inl)
  have f: "fst (makeManagementApiRequest env D fetch JSON_parse endpoint options s) =
     makeApiRequestInternal env fetch JSON_parse (fst (getManageApiUrl env D s)) endpoint options"
    by (simp add: makeManagementApiRequest_def split: prod.splits)
  have g: "fst (makeAgentsRunApiRequest env D fetch JSON_parse endpoint options s) =
     makeApiRequestInternal env fetch JSON_parse (fst (getRunApiUrl env D s)) endpoint options"
    by (simp add: makeAgentsRunApiRequest_def split: prod.splits)
  show ?thesis
    using a b c d e f g by blast
qed

theorem failed_request_throws_ApiError_witness:
  "makeApiRequestInternal Map.empty
     (exampleFailingServer 401 (JObj [(js ''error'', exampleUnauthorized)]))
     exampleJSON_parse (js ''http://localhost:3002'') (js ''graphs/g1'') \<lparr>headers = Map.empty\<rparr> =
     Inl (ApiError exampleUnauthorized 401) \<and>
   makeApiRequestInternal Map.empty (\<lambda>url init. Inl (JsError (js ''fetch failed'')))
     exampleJSON_parse (js ''http://localhost:3002'') (js ''graphs/g1'') \<lparr>headers = Map.empty\<rparr> =
     Inl (ApiError (JObj [(js ''code'', JStr (js ''internal_server_error'')),
                          (js ''message'', JStr (js ''fetch failed''))]) 500)"
proof -
  let ?body = "JObj [(js ''error'', exampleUnauthorized)]"
  let ?resp = "\<lparr>ok = False, status = 401, contentType = Some (js ''application/json''),
                json_result = Inr ?body, text_result = Inr []\<rparr>"
  note a = failed_request_throws_ApiError [where env = Map.empty
      and fetch = "exampleFailingServer 401 ?body" and JSON_parse = exampleJSON_parse
      and baseUrl = "js ''http://localhost:3002''" and endpoint = "js ''graphs/g1''"
      and options = "\<lparr>headers = Map.empty\<rparr>", THEN conjunct1, rule_format, of ?resp]
  note b = failed_request_throws_ApiError [where env = Map.empty
      and fetch = "\<lambda>url init. Inl (JsError (js ''fetch failed''))" and JSON_parse = exampleJSON_parse
      and baseUrl = "js ''http://localhost:3002''" and endpoint = "js ''graphs/g1''"
      and options = "\<lparr>headers = Map.empty\<rparr>", THEN conjunct2, THEN conjunct1, rule_format,
      of "js ''fetch failed''"]
  have be: "bodyError ?body = Some exampleUnauthorized"
    by (simp add: exampleUnauthorized_def)
  have "makeApiRequestInternal Map.empty (exampleFailingServer 401 ?body)
     exampleJSON_parse (js ''http://localhost:3002'') (js ''graphs/g1'') \<lparr>headers = Map.empty\<rparr> =
     Inl (ApiError (case bodyError ?body of Some v \<Rightarrow> v | None \<Rightarrow> unknownError) (status ?resp))"
    by (rule a [THEN conjunct2, rule_format, of ?body])
       (simp_all add: exampleFailingServer_def)
  moreover have "makeApiRequestInternal Map.empty (\<lambda>url init. Inl (JsError (js ''fetch failed'')))
     exampleJSON_parse (js ''http://localhost:3002'') (js ''graphs/g1'') \<lparr>headers = Map.empty\<rparr> =
     Inl (ApiError (JObj [(js ''code'', JStr (js ''internal_server_error'')),
                          (js ''message'', JStr (js ''fetch failed''))]) 500)"
    by (rule b) simp
  ultimately show ?thesis by (simp add: be del: bodyError.simps)
qed

subsection \<open>The bearer token\<close>

text \<open>
  C8. With both bypass secrets configured, a request through \<open>makeAgentsRunApiRequest\<close>
  carries the bearer token made from the manage secret, so a run API that expects its own
  secret answers 401, while a management request to a manage API that expects the manage
  secret is accepted. With only the run secret configured, the request has no
  \<open>Authorization\<close> header at all.
\<close>

theorem run_request_sends_manage_secret:
  "defaultHeaders exampleEnvSecrets \<lparr>headers = Map.empty\<rparr> (js ''Authorization'') =
     Some (js ''Bearer manage-secret'') \<and>
   fst (makeAgentsRunApiRequest exampleEnvSecrets exampleDefaults
          (exampleProtectedServer (js ''run-secret'')) exampleJSON_parse
          (js ''v1/chat/completions'') \<lparr>headers = Map.empty\<rparr> initial_api_state) =
     Inl (ApiError exampleUnauthorized 401) \<and>
   fst (makeManagementApiRequest exampleEnvSecrets exampleDefaults
          (exampleProtectedServer (js ''manage-secret'')) exampleJSON_parse
          (js ''graphs/g1'') \<lparr>headers = Map.empty\<rparr> initial_api_state) =
     Inr None \<and>
   defaultHeaders exampleEnvRunSecret \<lparr>headers = Map.empty\<rparr> (js ''Authorization'') = None \<and>
   fst (makeAgentsRunApiRequest exampleEnvRunSecret exampleDefaults
          (exampleProtectedServer (js ''run-secret'')) exampleJSON_parse
          (js ''v1/chat/completions'') \<lparr>headers = Map.empty\<rparr> initial_api_state) =
     Inl (ApiError exampleUnauthorized 401)"
proof -
  have h1: "defaultHeaders exampleEnvSecrets \<lparr>headers = Map.empty\<rparr> (js ''Authorization'') =
     Some (js ''Bearer manage-secret'')"
    by (simp add: defaultHeaders_def exampleEnvSecrets_def js_def)
  have h2: "defaultHeaders exampleEnvRunSecret \<lparr>headers = Map.empty\<rparr> (js ''Authorization'') = None"
    by (simp add: defaultHeaders_def exampleEnvRunSecret_def js_def map_add_def)
  have ne: "js ''Bearer manage-secret'' \<noteq> js ''Bearer '' @ js ''run-secret''"
    by (simp add: js_def)
  have eq: "js ''Bearer manage-secret'' = js ''Bearer '' @ js ''manage-secret''"
    by (simp add: js_def)
  have em: "errorMember (JObj [(js ''error'', exampleUnauthorized)]) = Inr (Some exampleUnauthorized)"
    "truthy_json exampleUnauthorized"
    by (simp_all add: exampleUnauthorized_def)
  have r1: "fst (makeAgentsRunApiRequest exampleEnvSecrets exampleDefaults
          (exampleProtectedServer (js ''run-secret'')) exampleJSON_parse
          (js ''v1/chat/completions'') \<lparr>headers = Map.empty\<rparr> initial_api_state) =
     Inl (ApiError exampleUnauthorized 401)"
    using h1 ne em
    by (simp add: makeAgentsRunApiRequest_def makeApiRequestInternal_def tryRequest_def
        exampleProtectedServer_def split: prod.splits del: errorMember.simps)
  have r2: "fst (makeManagementApiRequest exampleEnvSecrets exampleDefaults
          (exampleProtectedServer (js ''manage-secret'')) exampleJSON_parse
          (js ''graphs/g1'') \<lparr>headers = Map.empty\<rparr> initial_api_state) =
     Inr None"
    using h1 eq
    by (simp add: makeManagementApiRequest_def makeApiRequestInternal_def tryRequest_def
        exampleProtectedServer_def split: prod.splits)
  have r3: "fst (makeAgentsRunApiRequest exampleEnvRunSecret exampleDefaults
          (exampleProtectedServer (js ''run-secret'')) exampleJSON_parse
          (js ''v1/chat/completions'') \<lparr>headers = Map.empty\<rparr> initial_api_state) =
     Inl (ApiError exampleUnauthorized 401)"
    using h2 em
    by (simp add: makeAgentsRunApiRequest_def makeApiRequestInternal_def tryRequest_def
        exampleProtectedServer_def split: prod.splits del: errorMember.simps)
  from h1 r1 r2 h2 r3 show ?thesis by simp
qed


end
